theory Spec2Isabelle
  imports Main "HOL-Library.Word" "HOL-Library.Sublist"
begin

section \<open>JavaScript values\<close>

text \<open>
  A JavaScript string is a sequence of UTF-16 code units; \<open>length\<close>, \<open>slice\<close> and
  \<open>includes\<close> count and compare code units.
\<close>

type_synonym code_unit = "16 word"
type_synonym jsstring = "code_unit list"

definition lit :: "string \<Rightarrow> jsstring" where
  "lit s = map of_char s"

text \<open>
  The values the recorder handles. \<open>JArr\<close> and \<open>JObj\<close> are plain arrays and plain
  objects, the latter given by their own enumerable properties in enumeration order.
  \<open>JError name message stack\<close> is an instance of \<open>Error\<close>. \<open>JBlob size\<close> is a
  \<open>Blob\<close> or \<open>File\<close>, \<open>JFormData\<close> lists the entries of a \<open>FormData\<close>,
  \<open>JArrayBuffer byteLength\<close> and \<open>JUint8Array bytes\<close> are the binary buffers.
  Every other object (a function, a symbol, a BigInt, a \<open>Headers\<close> or \<open>URL\<close> instance,
  an object with a cycle, an object with its own \<open>toJSON\<close> or \<open>toString\<close>) is a
  \<open>JHost j s\<close>, described by what the two built-in conversions do on it:
  \<open>j\<close> is what \<open>JSON.stringify\<close> meets (\<open>Inl e\<close>: it throws \<open>e\<close>; \<open>Inr v\<close>: the
  object is serialised as \<open>v\<close>, \<open>JUndefined\<close> for a function or a symbol), and \<open>s\<close> is
  what \<open>String\<close> does (\<open>Inl e\<close>: it throws \<open>e\<close>). Numbers are the integers and \<open>NaN\<close>.
\<close>

datatype jsval =
    JUndefined
  | JNull
  | JBool bool
  | JNum int
  | JNaN
  | JStr jsstring
  | JArr "jsval list"
  | JObj "(jsstring \<times> jsval) list"
  | JError jsstring jsstring jsval
  | JBlob nat
  | JFormData "(jsstring \<times> jsval) list"
  | JArrayBuffer nat
  | JUint8Array "nat list"
  | JHost "jsval + jsval" "jsval + jsstring"

text \<open>A thrown value is any value; a computation that may throw returns \<open>Inl\<close> of it.\<close>

type_synonym 'a completion = "jsval + 'a"

definition TypeError :: "string \<Rightarrow> jsval" where
  "TypeError msg = JError (lit ''TypeError'') (lit msg) (JStr (lit ''TypeError: '' @ lit msg))"

text \<open>\<open>ToBoolean\<close>: the falsy values are \<open>undefined\<close>, \<open>null\<close>, \<open>false\<close>, \<open>0\<close>,
  \<open>NaN\<close> and the empty string.\<close>

fun truthy :: "jsval \<Rightarrow> bool" where
  "truthy JUndefined = False"
| "truthy JNull = False"
| "truthy (JBool b) = b"
| "truthy (JNum n) = (n \<noteq> 0)"
| "truthy JNaN = False"
| "truthy (JStr s) = (s \<noteq> [])"
| "truthy _ = True"

text \<open>\<open>a || b\<close>\<close>

definition js_or :: "jsval \<Rightarrow> jsval \<Rightarrow> jsval" where
  "js_or a b = (if truthy a then a else b)"

text \<open>\<open>s.slice(0, end)\<close> for an integer \<open>end\<close>: a negative \<open>end\<close> counts from the end
  of the string.\<close>

definition slice0 :: "jsstring \<Rightarrow> int \<Rightarrow> jsstring" where
  "slice0 s e = (if e < 0 then take (nat (int (length s) + e)) s else take (nat e) s)"

text \<open>\<open>s.includes(p)\<close>\<close>

fun str_includes :: "jsstring \<Rightarrow> jsstring \<Rightarrow> bool" where
  "str_includes [] p = (p = [])"
| "str_includes (c # cs) p = (prefix p (c # cs) \<or> str_includes cs p)"

subsection \<open>Numbers to strings\<close>

definition digit_unit :: "nat \<Rightarrow> code_unit" where
  "digit_unit d = of_nat (48 + d)"

function decimal_nat :: "nat \<Rightarrow> jsstring" where
  "decimal_nat n = (if n < 10 then [digit_unit n] else decimal_nat (n div 10) @ [digit_unit (n mod 10)])"
  by pat_completeness auto
termination
  by (relation "measure id") auto

declare decimal_nat.simps [simp del]

definition decimal :: "int \<Rightarrow> jsstring" where
  "decimal i = (if i < 0 then lit ''-'' @ decimal_nat (nat (- i)) else decimal_nat (nat i))"

subsection \<open>\<open>String(v)\<close>\<close>

text \<open>\<open>xs.join(sep)\<close> on strings already converted.\<close>

fun join :: "jsstring \<Rightarrow> jsstring list \<Rightarrow> jsstring" where
  "join sep [] = []"
| "join sep [x] = x"
| "join sep (x # y # ys) = x @ sep @ join sep (y # ys)"

fun ToString :: "jsval \<Rightarrow> jsstring completion"
  and ToString_elems :: "jsval list \<Rightarrow> (jsstring list) completion" where
  "ToString JUndefined = Inr (lit ''undefined'')"
| "ToString JNull = Inr (lit ''null'')"
| "ToString (JBool b) = Inr (if b then lit ''true'' else lit ''false'')"
| "ToString (JNum n) = Inr (decimal n)"
| "ToString JNaN = Inr (lit ''NaN'')"
| "ToString (JStr s) = Inr s"
| "ToString (JArr xs) = (case ToString_elems xs of Inl e \<Rightarrow> Inl e | Inr ss \<Rightarrow> Inr (join (lit '','') ss))"
| "ToString (JObj fs) = Inr (lit ''[object Object]'')"
| "ToString (JError name msg stack) =
     Inr (if name = [] then msg else if msg = [] then name else name @ lit '': '' @ msg)"
| "ToString (JBlob n) = Inr (lit ''[object Blob]'')"
| "ToString (JFormData es) = Inr (lit ''[object FormData]'')"
| "ToString (JArrayBuffer n) = Inr (lit ''[object ArrayBuffer]'')"
| "ToString (JUint8Array bs) = Inr (join (lit '','') (map decimal_nat bs))"
| "ToString (JHost j s) = s"
| "ToString_elems [] = Inr []"
| "ToString_elems (x # xs) =
     (case (if x = JUndefined \<or> x = JNull then Inr [] else ToString x) of
        Inl e \<Rightarrow> Inl e
      | Inr s \<Rightarrow> (case ToString_elems xs of Inl e \<Rightarrow> Inl e | Inr ss \<Rightarrow> Inr (s # ss)))"

subsection \<open>\<open>JSON.stringify\<close>\<close>

text \<open>
  The value \<open>JSON.stringify\<close> serialises in place of \<open>v\<close> (\<open>SerializeJSONProperty\<close>
  before any text is produced): \<open>NaN\<close> becomes \<open>null\<close>, a property whose value is
  \<open>undefined\<close> is dropped, an array element that is \<open>undefined\<close> becomes \<open>null\<close>,
  an object without own enumerable properties becomes \<open>{}\<close>, a typed array becomes
  the object of its indices. The result \<open>JUndefined\<close> at the top means that
  \<open>JSON.stringify\<close> returns \<open>undefined\<close>.
\<close>

fun index_props :: "nat \<Rightarrow> nat list \<Rightarrow> (jsstring \<times> jsval) list" where
  "index_props i [] = []"
| "index_props i (b # bs) = (decimal_nat i, JNum (int b)) # index_props (Suc i) bs"

fun JSON_value :: "jsval \<Rightarrow> jsval completion"
  and JSON_elems :: "jsval list \<Rightarrow> (jsval list) completion"
  and JSON_props :: "(jsstring \<times> jsval) list \<Rightarrow> ((jsstring \<times> jsval) list) completion" where
  "JSON_value JUndefined = Inr JUndefined"
| "JSON_value JNull = Inr JNull"
| "JSON_value (JBool b) = Inr (JBool b)"
| "JSON_value (JNum n) = Inr (JNum n)"
| "JSON_value JNaN = Inr JNull"
| "JSON_value (JStr s) = Inr (JStr s)"
| "JSON_value (JArr xs) = (case JSON_elems xs of Inl e \<Rightarrow> Inl e | Inr ys \<Rightarrow> Inr (JArr ys))"
| "JSON_value (JObj fs) = (case JSON_props fs of Inl e \<Rightarrow> Inl e | Inr gs \<Rightarrow> Inr (JObj gs))"
| "JSON_value (JError name msg stack) = Inr (JObj [])"
| "JSON_value (JBlob n) = Inr (JObj [])"
| "JSON_value (JFormData es) = Inr (JObj [])"
| "JSON_value (JArrayBuffer n) = Inr (JObj [])"
| "JSON_value (JUint8Array bs) = Inr (JObj (index_props 0 bs))"
| "JSON_value (JHost (Inl e) s) = Inl e"
| "JSON_value (JHost (Inr v) s) = JSON_value v"
| "JSON_elems [] = Inr []"
| "JSON_elems (x # xs) =
     (case JSON_value x of
        Inl e \<Rightarrow> Inl e
      | Inr y \<Rightarrow> (case JSON_elems xs of
                   Inl e \<Rightarrow> Inl e
                 | Inr ys \<Rightarrow> Inr ((if y = JUndefined then JNull else y) # ys)))"
| "JSON_props [] = Inr []"
| "JSON_props ((k, x) # fs) =
     (case JSON_value x of
        Inl e \<Rightarrow> Inl e
      | Inr y \<Rightarrow> (case JSON_props fs of
                   Inl e \<Rightarrow> Inl e
                 | Inr gs \<Rightarrow> Inr (if y = JUndefined then gs else (k, y) # gs)))"

text \<open>\<open>QuoteJSONString\<close>: the escapes of JSON text; a surrogate that is not part of a
  pair is written as a \<open>\u\<close> escape, a pair is kept.\<close>

definition hex_digit :: "nat \<Rightarrow> code_unit" where
  "hex_digit d = (if d < 10 then of_nat (48 + d) else of_nat (87 + d))"

definition unicode_escape :: "code_unit \<Rightarrow> jsstring" where
  "unicode_escape c =
     (let n = unat c in
      lit [CHR 0x5C, CHR ''u''] @
      [hex_digit (n div 4096), hex_digit (n div 256 mod 16), hex_digit (n div 16 mod 16), hex_digit (n mod 16)])"

definition is_high_surrogate :: "code_unit \<Rightarrow> bool" where
  "is_high_surrogate c = (0xD800 \<le> unat c \<and> unat c \<le> 0xDBFF)"

definition is_low_surrogate :: "code_unit \<Rightarrow> bool" where
  "is_low_surrogate c = (0xDC00 \<le> unat c \<and> unat c \<le> 0xDFFF)"

definition quote_unit :: "code_unit \<Rightarrow> jsstring" where
  "quote_unit c =
     (let n = unat c in
      if n = 0x08 then lit [CHR 0x5C, CHR ''b'']
      else if n = 0x09 then lit [CHR 0x5C, CHR ''t'']
      else if n = 0x0A then lit [CHR 0x5C, CHR ''n'']
      else if n = 0x0C then lit [CHR 0x5C, CHR ''f'']
      else if n = 0x0D then lit [CHR 0x5C, CHR ''r'']
      else if n = 0x22 then lit [CHR 0x5C, CHR 0x22]
      else if n = 0x5C then lit [CHR 0x5C, CHR 0x5C]
      else if n < 0x20 \<or> is_high_surrogate c \<or> is_low_surrogate c then unicode_escape c
      else [c])"

fun quote_units :: "jsstring \<Rightarrow> jsstring" where
  "quote_units [] = []"
| "quote_units [c] = quote_unit c"
| "quote_units (c # d # cs) =
     (if is_high_surrogate c \<and> is_low_surrogate d then c # d # quote_units cs
      else quote_unit c @ quote_units (d # cs))"

definition QuoteJSONString :: "jsstring \<Rightarrow> jsstring" where
  "QuoteJSONString s = lit [CHR 0x22] @ quote_units s @ lit [CHR 0x22]"

text \<open>
  The text of an already converted value, for a gap of \<open>gap\<close> spaces (\<open>0\<close>: the compact
  form of \<open>JSON.stringify(v)\<close>; \<open>2\<close>: \<open>JSON.stringify(v, null, 2)\<close>) at the
  indentation \<open>ind\<close>.
\<close>

definition newline_indent :: "nat \<Rightarrow> jsstring" where
  "newline_indent n = lit [CHR 0x0A] @ replicate n (of_char CHR '' '')"

definition bracket :: "string \<Rightarrow> string \<Rightarrow> nat \<Rightarrow> nat \<Rightarrow> jsstring list \<Rightarrow> jsstring" where
  "bracket l r gap ind items =
     (if items = [] then lit l @ lit r
      else if gap = 0 then lit l @ join (lit '','') items @ lit r
      else lit l @ newline_indent (ind + gap) @
           join (lit '','' @ newline_indent (ind + gap)) items @
           newline_indent ind @ lit r)"

fun JSON_text :: "nat \<Rightarrow> nat \<Rightarrow> jsval \<Rightarrow> jsstring"
  and JSON_text_elems :: "nat \<Rightarrow> nat \<Rightarrow> jsval list \<Rightarrow> jsstring list"
  and JSON_text_props :: "nat \<Rightarrow> nat \<Rightarrow> (jsstring \<times> jsval) list \<Rightarrow> jsstring list" where
  "JSON_text gap ind (JBool b) = (if b then lit ''true'' else lit ''false'')"
| "JSON_text gap ind (JNum n) = decimal n"
| "JSON_text gap ind (JStr s) = QuoteJSONString s"
| "JSON_text gap ind (JArr xs) = bracket ''['' '']'' gap ind (JSON_text_elems gap (ind + gap) xs)"
| "JSON_text gap ind (JObj fs) = bracket ''{'' ''}'' gap ind (JSON_text_props gap (ind + gap) fs)"
| "JSON_text gap ind _ = lit ''null''"
| "JSON_text_elems gap ind [] = []"
| "JSON_text_elems gap ind (x # xs) = JSON_text gap ind x # JSON_text_elems gap ind xs"
| "JSON_text_props gap ind [] = []"
| "JSON_text_props gap ind ((k, x) # fs) =
     (QuoteJSONString k @ (if gap = 0 then lit '':'' else lit '': '') @ JSON_text gap ind x)
     # JSON_text_props gap ind fs"

text \<open>\<open>JSON.stringify(v)\<close> (gap \<open>0\<close>) and \<open>JSON.stringify(v, null, gap)\<close>: a string,
  \<open>undefined\<close> (\<open>None\<close>) or an exception.\<close>

definition JSON_stringify :: "nat \<Rightarrow> jsval \<Rightarrow> (jsstring option) completion" where
  "JSON_stringify gap v =
     (case JSON_value v of
        Inl e \<Rightarrow> Inl e
      | Inr t \<Rightarrow> if t = JUndefined then Inr None else Inr (Some (JSON_text gap 0 t)))"

section \<open>The bounded serializer\<close>

text \<open>
  \<open>entries[key] = typeof value === "string" ? value : "[File]"\<close> over the entries of a
  \<open>FormData\<close>: a later entry of the same name overwrites the earlier one in place.
\<close>

fun assign :: "jsstring \<Rightarrow> jsval \<Rightarrow> (jsstring \<times> jsval) list \<Rightarrow> (jsstring \<times> jsval) list" where
  "assign k v [] = [(k, v)]"
| "assign k v ((k', v') # fs) = (if k = k' then (k, v) # fs else (k', v') # assign k v fs)"

fun form_entries :: "(jsstring \<times> jsval) list \<Rightarrow> (jsstring \<times> jsval) list \<Rightarrow> (jsstring \<times> jsval) list" where
  "form_entries entries [] = entries"
| "form_entries entries ((key, val) # es) =
     form_entries (assign key (case val of JStr s \<Rightarrow> JStr s | _ \<Rightarrow> JStr (lit ''[File]'')) entries) es"

text \<open>\<open>JSON.stringify(x).slice(0, maxSize)\<close>: \<open>slice\<close> of \<open>undefined\<close> throws.\<close>

definition stringify_slice :: "jsval \<Rightarrow> int \<Rightarrow> jsstring completion" where
  "stringify_slice x maxSize =
     (case JSON_stringify 0 x of
        Inl e \<Rightarrow> Inl e
      | Inr None \<Rightarrow> Inl (TypeError ''Cannot read properties of undefined (reading 'slice')'')
      | Inr (Some t) \<Rightarrow> Inr (slice0 t maxSize))"

text \<open>The body of the \<open>try\<close> block of \<open>serializeData\<close>.\<close>

fun serializeData_try :: "jsval \<Rightarrow> int \<Rightarrow> jsstring completion" where
  "serializeData_try (JStr s) maxSize = Inr (slice0 s maxSize)"
| "serializeData_try (JFormData es) maxSize = stringify_slice (JObj (form_entries [] es)) maxSize"
| "serializeData_try (JArrayBuffer n) maxSize =
     Inr (lit ''[Binary data: '' @ decimal_nat n @ lit '' bytes]'')"
| "serializeData_try (JUint8Array bs) maxSize =
     Inr (lit ''[Binary data: '' @ decimal_nat (length bs) @ lit '' bytes]'')"
| "serializeData_try data maxSize = stringify_slice data maxSize"

definition serializeData :: "jsval \<Rightarrow> int \<Rightarrow> jsstring completion" where
  "serializeData data maxSize =
     (if \<not> truthy data then Inr []
      else case serializeData_try data maxSize of
             Inr s \<Rightarrow> Inr s
           | Inl e \<Rightarrow> (case ToString data of
                         Inl e' \<Rightarrow> Inl e'
                       | Inr s \<Rightarrow> Inr (slice0 s maxSize)))"

text \<open>The default of the second parameter.\<close>

definition serializeData_default :: "jsval \<Rightarrow> jsstring completion" where
  "serializeData_default data = serializeData data 4096"

section \<open>Property access\<close>

text \<open>
  \<open>v.k\<close> for the properties the recorder reads. Reading a property of \<open>undefined\<close>
  or \<open>null\<close> throws a \<open>TypeError\<close>; an absent property is \<open>undefined\<close>. A \<open>JHost\<close>
  object has none of the properties read here.
\<close>

fun lookup :: "(jsstring \<times> jsval) list \<Rightarrow> jsstring \<Rightarrow> jsval" where
  "lookup [] k = JUndefined"
| "lookup ((k', v) # fs) k = (if k = k' then v else lookup fs k)"

fun get_prop :: "jsval \<Rightarrow> string \<Rightarrow> jsval completion" where
  "get_prop JUndefined k =
     Inl (TypeError (''Cannot read properties of undefined (reading '' @ [CHR 0x27] @ k @ [CHR 0x27] @ '')''))"
| "get_prop JNull k =
     Inl (TypeError (''Cannot read properties of null (reading '' @ [CHR 0x27] @ k @ [CHR 0x27] @ '')''))"
| "get_prop (JObj fs) k = Inr (lookup fs (lit k))"
| "get_prop (JError name msg stack) k =
     Inr (if k = ''name'' then JStr name else if k = ''message'' then JStr msg
          else if k = ''stack'' then stack else JUndefined)"
| "get_prop (JBlob n) k = Inr (if k = ''size'' then JNum (int n) else JUndefined)"
| "get_prop (JArrayBuffer n) k = Inr (if k = ''byteLength'' then JNum (int n) else JUndefined)"
| "get_prop (JUint8Array bs) k =
     Inr (if k = ''byteLength'' \<or> k = ''length'' then JNum (int (length bs)) else JUndefined)"
| "get_prop (JStr s) k = Inr (if k = ''length'' then JNum (int (length s)) else JUndefined)"
| "get_prop (JArr xs) k = Inr (if k = ''length'' then JNum (int (length xs)) else JUndefined)"
| "get_prop _ k = Inr JUndefined"

text \<open>\<open>v?.k\<close>\<close>

definition opt_prop :: "jsval \<Rightarrow> string \<Rightarrow> jsval" where
  "opt_prop v k = (case get_prop v k of Inl e \<Rightarrow> JUndefined | Inr x \<Rightarrow> x)"

text \<open>Reading a property of an object the recorder built itself.\<close>

definition js_prop :: "string \<Rightarrow> jsval \<Rightarrow> jsval" where
  "js_prop k v = opt_prop v k"

section \<open>The page and the session buffer\<close>

text \<open>
  The state of the page as far as the recorder reads or writes it. Arrays are objects
  in a store (\<open>arrays\<close>, with \<open>fresh\<close> the next unused reference), so that a copy of
  the session buffer and the buffer itself are different objects. \<open>Date.now()\<close> takes
  the next reading of \<open>clock\<close>, \<open>Math.random().toString(36).slice(2)\<close> the next
  token of \<open>random_tokens\<close>. \<open>console_out\<close> lists the calls that reached the native
  console methods, \<open>location_href\<close> is \<open>location.href\<close>.
\<close>

datatype console_level = LevelLog | LevelError | LevelWarn | LevelInfo | LevelDebug

record world =
  arrays :: "nat \<Rightarrow> jsval list"
  fresh :: nat
  clock :: "nat \<Rightarrow> int"
  reads :: nat
  random_tokens :: "nat \<Rightarrow> jsstring"
  draws :: nat
  console_out :: "(console_level \<times> jsval list) list"
  location_href :: jsstring

text \<open>\<open>const session = []\<close> is the first array allocated.\<close>

definition session_ref :: nat where
  "session_ref = 0"

definition session :: "world \<Rightarrow> jsval list" where
  "session w = arrays w session_ref"

definition Date_now :: "world \<Rightarrow> int \<times> world" where
  "Date_now w = (clock w (reads w), w\<lparr>reads := Suc (reads w)\<rparr>)"

definition random_id :: "world \<Rightarrow> jsstring \<times> world" where
  "random_id w = (random_tokens w (draws w), w\<lparr>draws := Suc (draws w)\<rparr>)"

text \<open>\<open>session.push(e)\<close>\<close>

definition session_push :: "jsval \<Rightarrow> world \<Rightarrow> world" where
  "session_push e w = w\<lparr>arrays := (arrays w)(session_ref := arrays w session_ref @ [e])\<rparr>"

text \<open>
  \<open>addCustomEvent(tag, payload)\<close>: the event is pushed with the type of a custom event
  and the time of the push. The variant of the recorder that calls
  \<open>window.rrweb.addCustomEvent\<close> receives the same event through the \<open>emit\<close> callback,
  which pushes it.
\<close>

definition addCustomEvent :: "string \<Rightarrow> jsval \<Rightarrow> world \<Rightarrow> world" where
  "addCustomEvent tag payload w =
     (let (now, w1) = Date_now w in
      session_push
        (JObj [(lit ''type'', JNum 5),
               (lit ''data'', JObj [(lit ''tag'', JStr (lit tag)), (lit ''payload'', payload)]),
               (lit ''timestamp'', JNum now)]) w1)"

definition event_tag :: "jsval \<Rightarrow> jsval" where
  "event_tag e = js_prop ''tag'' (js_prop ''data'' e)"

definition event_payload :: "jsval \<Rightarrow> jsval" where
  "event_payload e = js_prop ''payload'' (js_prop ''data'' e)"

section \<open>Console capture\<close>










section \<open>Network capture: fetch\<close>

text \<open>
  The \<open>init\<close> argument of \<open>fetch\<close>, by the three properties the wrapper reads
  (\<open>JUndefined\<close> for an absent one; an absent \<open>init\<close> is the empty object). A
  response is given by its status line and its header entries, names in lower case;
  \<open>res.ok\<close> is the flag of the Fetch standard, status 200 to 299.
\<close>

record fetch_init =
  init_body :: jsval
  init_method :: jsval
  init_headers :: jsval

record response =
  res_status :: int
  res_statusText :: jsstring
  res_headers :: "(jsstring \<times> jsstring) list"

definition res_ok :: "response \<Rightarrow> bool" where
  "res_ok res = (200 \<le> res_status res \<and> res_status res \<le> 299)"

text \<open>\<open>res.headers.get(name)\<close>: \<open>null\<close> for an absent header.\<close>

definition headers_get :: "response \<Rightarrow> string \<Rightarrow> jsval" where
  "headers_get res name = (case map_of (res_headers res) (lit name) of None \<Rightarrow> JNull | Some v \<Rightarrow> JStr v)"

text \<open>\<open>x || d\<close> where \<open>x\<close> is a string or \<open>null\<close> and \<open>d\<close> a string.\<close>

definition string_or :: "jsval \<Rightarrow> jsstring \<Rightarrow> jsstring" where
  "string_or x d = (case js_or x (JStr d) of JStr s \<Rightarrow> s | _ \<Rightarrow> d)"

text \<open>
  How the original \<open>fetch\<close> settles: it resolves with a response, whose clone's
  \<open>text()\<close> then resolves with the body or rejects, or it rejects with a reason.
\<close>

datatype settlement = Resolved response "jsstring completion" | Rejected jsval

text \<open>The variables \<open>id\<close> and \<open>started\<close> of one call, alive across the \<open>await\<close>.\<close>

record pending_fetch =
  fetch_id :: jsstring
  fetch_started :: int

text \<open>The wrapper up to the call of the original \<open>fetch\<close>.\<close>

definition fetch_begin :: "jsval \<Rightarrow> fetch_init \<Rightarrow> world \<Rightarrow> pending_fetch completion \<times> world" where
  "fetch_begin resource init w =
     (let (started, w1) = Date_now w;
          (id, w2) = random_id w1
      in case (if truthy (init_body init) then serializeData_default (init_body init) else Inr []) of
           Inl e \<Rightarrow> (Inl e, w2)
         | Inr requestBody \<Rightarrow>
            (case ToString resource of
               Inl e \<Rightarrow> (Inl e, w2)
             | Inr url \<Rightarrow>
                (Inr \<lparr>fetch_id = id, fetch_started = started\<rparr>,
                 addCustomEvent ''network''
                   (JObj [(lit ''id'', JStr id),
                          (lit ''phase'', JStr (lit ''start'')),
                          (lit ''api'', JStr (lit ''fetch'')),
                          (lit ''url'', JStr url),
                          (lit ''method'', js_or (init_method init) (JStr (lit ''GET''))),
                          (lit ''headers'', js_or (init_headers init) (JObj [])),
                          (lit ''requestBody'', JStr requestBody),
                          (lit ''timestamp'', JNum started)]) w2)))"

text \<open>The inner \<open>try\<close> and \<open>catch\<close>: the text and the type of the response body.\<close>

definition error_reading :: "jsval \<Rightarrow> jsstring completion" where
  "error_reading err =
     (case get_prop err ''message'' of
        Inl e \<Rightarrow> Inl e
      | Inr m \<Rightarrow> (case ToString m of
                   Inl e \<Rightarrow> Inl e
                 | Inr ms \<Rightarrow> Inr (lit ''[Error reading response: '' @ ms @ lit '']'')))"

definition read_body :: "response \<Rightarrow> jsstring completion \<Rightarrow> (jsstring \<times> jsstring) completion" where
  "read_body res body =
     (let contentType = string_or (headers_get res ''content-type'') [] in
      case (if str_includes contentType (lit ''application/json'') then
              (case body of Inl err \<Rightarrow> Inl err | Inr t \<Rightarrow> Inr (t, lit ''json''))
            else if str_includes contentType (lit ''text/'') then
              (case body of Inl err \<Rightarrow> Inl err | Inr t \<Rightarrow> Inr (t, lit ''text''))
            else if str_includes contentType (lit ''image/'') \<or>
                    str_includes contentType (lit ''video/'') \<or>
                    str_includes contentType (lit ''audio/'') then
              Inr (lit ''['' @ contentType @ lit '' - '' @
                   string_or (headers_get res ''content-length'') (lit ''unknown'') @ lit '' bytes]'',
                   lit ''binary'')
            else
              (case body of Inl err \<Rightarrow> Inl err | Inr t \<Rightarrow> Inr (t, lit ''text''))) of
        Inr r \<Rightarrow> Inr r
      | Inl err \<Rightarrow> (case error_reading err of Inl e \<Rightarrow> Inl e | Inr t \<Rightarrow> Inr (t, lit ''text'')))"

text \<open>The outer \<open>catch\<close>: the value thrown to the caller, and the page.\<close>

definition fetch_catch :: "pending_fetch \<Rightarrow> jsval \<Rightarrow> world \<Rightarrow> jsval \<times> world" where
  "fetch_catch p err w =
     (case get_prop err ''message'' of
        Inl e \<Rightarrow> (e, w)
      | Inr msg \<Rightarrow>
         (case get_prop err ''stack'' of
            Inl e \<Rightarrow> (e, w)
          | Inr stack \<Rightarrow>
             (let (t1, w1) = Date_now w;
                  (t2, w2) = Date_now w1
              in (err,
                  addCustomEvent ''network''
                    (JObj [(lit ''id'', JStr (fetch_id p)),
                           (lit ''phase'', JStr (lit ''error'')),
                           (lit ''error'', msg),
                           (lit ''stack'', stack),
                           (lit ''duration'', JNum (t1 - fetch_started p)),
                           (lit ''timestamp'', JNum t2)]) w2))))"

text \<open>The wrapper from the settlement of the original \<open>fetch\<close> on: what the caller's
  promise settles to, and the page.\<close>

definition fetch_settle :: "pending_fetch \<Rightarrow> settlement \<Rightarrow> world \<Rightarrow> response completion \<times> world" where
  "fetch_settle p s w =
     (case s of
        Rejected err \<Rightarrow> (let (e, w') = fetch_catch p err w in (Inl e, w'))
      | Resolved res body \<Rightarrow>
         (case read_body res body of
            Inl err \<Rightarrow> (let (e, w') = fetch_catch p err w in (Inl e, w'))
          | Inr (responseText, responseType) \<Rightarrow>
             (case serializeData_default (JStr responseText) of
                Inl err \<Rightarrow> (let (e, w') = fetch_catch p err w in (Inl e, w'))
              | Inr responseBody \<Rightarrow>
                 (let (t1, w1) = Date_now w;
                      (t2, w2) = Date_now w1
                  in (Inr res,
                      addCustomEvent ''network''
                        (JObj [(lit ''id'', JStr (fetch_id p)),
                               (lit ''phase'', JStr (lit ''end'')),
                               (lit ''status'', JNum (res_status res)),
                               (lit ''statusText'', JStr (res_statusText res)),
                               (lit ''ok'', JBool (res_ok res)),
                               (lit ''headers'', JObj (map (\<lambda>(k, v). (k, JStr v)) (res_headers res))),
                               (lit ''responseBody'', JStr responseBody),
                               (lit ''responseType'', JStr responseType),
                               (lit ''duration'', JNum (t1 - fetch_started p)),
                               (lit ''timestamp'', JNum t2)]) w2)))))"

section \<open>Network capture: XMLHttpRequest\<close>

text \<open>
  The variables of one \<open>WrappedXHR\<close> instance; \<open>xhr_attached\<close> counts the calls of
  \<open>send\<close>, each of which attaches the five listeners once more.
\<close>

record xhr_closure =
  xhr_id :: jsstring
  xhr_url :: jsval
  xhr_method :: jsval
  xhr_started :: int
  xhr_requestHeaders :: "(jsstring \<times> jsval) list"
  xhr_requestBody :: jsstring
  xhr_attached :: nat

text \<open>What the native object shows when a listener runs; the getter \<open>responseText\<close>
  may throw.\<close>

record xhr_native =
  xn_responseType :: jsstring
  xn_contentType :: jsval
  xn_responseText :: "jsval completion"
  xn_response :: jsval
  xn_status :: int
  xn_statusText :: jsstring
  xn_allResponseHeaders :: jsval

datatype xhr_signal = SigLoad | SigLoadend | SigError | SigAbort | SigTimeout

definition WrappedXHR :: "world \<Rightarrow> xhr_closure \<times> world" where
  "WrappedXHR w =
     (let (id, w1) = random_id w in
      (\<lparr>xhr_id = id, xhr_url = JStr [], xhr_method = JStr (lit ''GET''), xhr_started = 0,
        xhr_requestHeaders = [], xhr_requestBody = [], xhr_attached = 0\<rparr>, w1))"

definition xhr_open :: "jsval \<Rightarrow> jsval \<Rightarrow> xhr_closure \<Rightarrow> xhr_closure" where
  "xhr_open m u c = c\<lparr>xhr_method := m, xhr_url := u\<rparr>"

definition xhr_setRequestHeader :: "jsstring \<Rightarrow> jsval \<Rightarrow> xhr_closure \<Rightarrow> xhr_closure" where
  "xhr_setRequestHeader header v c = c\<lparr>xhr_requestHeaders := assign header v (xhr_requestHeaders c)\<rparr>"

definition xhr_send :: "jsval \<Rightarrow> xhr_closure \<Rightarrow> world \<Rightarrow> (unit completion \<times> xhr_closure) \<times> world" where
  "xhr_send body c w =
     (let (started, w1) = Date_now w;
          c1 = c\<lparr>xhr_started := started\<rparr>
      in case serializeData_default body of
           Inl e \<Rightarrow> ((Inl e, c1), w1)
         | Inr requestBody \<Rightarrow>
            ((Inr (), c1\<lparr>xhr_requestBody := requestBody, xhr_attached := Suc (xhr_attached c1)\<rparr>),
             addCustomEvent ''network''
               (JObj [(lit ''id'', JStr (xhr_id c1)),
                      (lit ''phase'', JStr (lit ''start'')),
                      (lit ''api'', JStr (lit ''xhr'')),
                      (lit ''url'', xhr_url c1),
                      (lit ''method'', xhr_method c1),
                      (lit ''headers'', JObj (xhr_requestHeaders c1)),
                      (lit ''requestBody'', JStr requestBody),
                      (lit ''timestamp'', JNum started)]) w1))"

text \<open>The \<open>try\<close> and \<open>catch\<close> of \<open>handleResponse\<close>: the body and its type.\<close>

definition xhr_read :: "xhr_native \<Rightarrow> (jsval \<times> jsstring) completion" where
  "xhr_read n =
     (case (if xn_responseType n = lit ''json'' \<or>
               (case xn_contentType n of JStr ct \<Rightarrow> str_includes ct (lit ''application/json'') | _ \<Rightarrow> False) then
              (case xn_responseText n of
                 Inl e \<Rightarrow> Inl e
               | Inr t \<Rightarrow> Inr (js_or t (xn_response n), lit ''json''))
            else if xn_responseType n = lit ''blob'' \<or> xn_responseType n = lit ''arraybuffer'' then
              (case ToString (js_or (opt_prop (xn_response n) ''size'')
                               (js_or (opt_prop (xn_response n) ''byteLength'') (JStr (lit ''unknown'')))) of
                 Inl e \<Rightarrow> Inl e
               | Inr sz \<Rightarrow> Inr (JStr (lit ''[Binary response: '' @ sz @ lit '' bytes]''), lit ''binary''))
            else
              (case xn_responseText n of
                 Inl e \<Rightarrow> Inl e
               | Inr t \<Rightarrow>
                  if truthy t then Inr (t, lit ''text'')
                  else (case ToString (js_or (xn_response n) (JStr [])) of
                          Inl e \<Rightarrow> Inl e
                        | Inr s \<Rightarrow> Inr (JStr s, lit ''text'')))) of
        Inr r \<Rightarrow> Inr r
      | Inl err \<Rightarrow> (case error_reading err of Inl e \<Rightarrow> Inl e | Inr t \<Rightarrow> Inr (JStr t, lit ''text'')))"

definition handleResponse :: "xhr_closure \<Rightarrow> xhr_native \<Rightarrow> world \<Rightarrow> world completion" where
  "handleResponse c n w =
     (case xhr_read n of
        Inl e \<Rightarrow> Inl e
      | Inr (responseBody, responseType) \<Rightarrow>
         (case serializeData_default responseBody of
            Inl e \<Rightarrow> Inl e
          | Inr body \<Rightarrow>
             (let (t1, w1) = Date_now w;
                  (t2, w2) = Date_now w1
              in Inr (addCustomEvent ''network''
                        (JObj [(lit ''id'', JStr (xhr_id c)),
                               (lit ''phase'', JStr (lit ''end'')),
                               (lit ''status'', JNum (xn_status n)),
                               (lit ''statusText'', JStr (xn_statusText n)),
                               (lit ''ok'', JBool (xn_status n \<ge> 200 \<and> xn_status n < 400)),
                               (lit ''responseHeaders'', xn_allResponseHeaders n),
                               (lit ''responseBody'', JStr body),
                               (lit ''responseType'', JStr responseType),
                               (lit ''duration'', JNum (t1 - xhr_started c)),
                               (lit ''timestamp'', JNum t2)]) w2))))"

definition handleError :: "xhr_closure \<Rightarrow> world \<Rightarrow> world" where
  "handleError c w =
     (let (t1, w1) = Date_now w;
          (t2, w2) = Date_now w1
      in addCustomEvent ''network''
           (JObj [(lit ''id'', JStr (xhr_id c)),
                  (lit ''phase'', JStr (lit ''error'')),
                  (lit ''error'', JStr (lit ''Network error'')),
                  (lit ''duration'', JNum (t1 - xhr_started c)),
                  (lit ''timestamp'', JNum t2)]) w2)"

text \<open>
  The listener that one call of \<open>send\<close> attached for a signal: \<open>handleResponse\<close> for
  \<open>load\<close> and for \<open>loadend\<close>, \<open>handleError\<close> for \<open>error\<close>, \<open>abort\<close> and \<open>timeout\<close>.
\<close>

definition xhr_listener :: "xhr_closure \<Rightarrow> xhr_signal \<Rightarrow> xhr_native \<Rightarrow> world \<Rightarrow> world completion" where
  "xhr_listener c sig n w =
     (case sig of
        SigLoad \<Rightarrow> handleResponse c n w
      | SigLoadend \<Rightarrow> handleResponse c n w
      | SigError \<Rightarrow> Inr (handleError c w)
      | SigAbort \<Rightarrow> Inr (handleError c w)
      | SigTimeout \<Rightarrow> Inr (handleError c w))"

text \<open>A signal runs the listener of every call of \<open>send\<close> so far; \<open>Inl\<close> when a listener
  throws.\<close>

fun run_listeners :: "nat \<Rightarrow> (world \<Rightarrow> world completion) \<Rightarrow> world \<Rightarrow> world completion" where
  "run_listeners 0 h w = Inr w"
| "run_listeners (Suc k) h w = (case h w of Inl e \<Rightarrow> Inl e | Inr w' \<Rightarrow> run_listeners k h w')"

definition xhr_dispatch :: "xhr_closure \<Rightarrow> xhr_signal \<times> xhr_native \<Rightarrow> world \<Rightarrow> world completion" where
  "xhr_dispatch c sn w = run_listeners (xhr_attached c) (xhr_listener c (fst sn) (snd sn)) w"

text \<open>The signals of a request, one after the other.\<close>

fun xhr_deliver :: "xhr_closure \<Rightarrow> (xhr_signal \<times> xhr_native) list \<Rightarrow> world \<Rightarrow> world completion" where
  "xhr_deliver c [] w = Inr w"
| "xhr_deliver c (sn # sns) w =
     (case xhr_dispatch c sn w of Inl e \<Rightarrow> Inl e | Inr w' \<Rightarrow> xhr_deliver c sns w')"

section \<open>Navigation capture\<close>

definition emitNav :: "world \<Rightarrow> world" where
  "emitNav w =
     (let href = location_href w; (now, w1) = Date_now w in
      addCustomEvent ''nav'' (JObj [(lit ''href'', JStr href), (lit ''t'', JNum now)]) w1)"

text \<open>
  The wrappers of \<open>history.pushState\<close> and \<open>history.replaceState\<close>. The native mutator
  is a parameter: from a page it either throws or returns a value, and leaves a page.
\<close>

type_synonym native_mutator = "world \<Rightarrow> jsval completion \<times> world"

definition history_wrapper :: "native_mutator \<Rightarrow> world \<Rightarrow> jsval completion \<times> world" where
  "history_wrapper orig w =
     (case orig w of
        (Inl e, w1) \<Rightarrow> (Inl e, w1)
      | (Inr r, w1) \<Rightarrow> (Inr r, emitNav w1))"

section \<open>The control object\<close>



definition getNetworkEvents :: "world \<Rightarrow> jsval list" where
  "getNetworkEvents w =
     filter (\<lambda>event. js_prop ''type'' event = JNum 5 \<and> event_tag event = JStr (lit ''network'')) (session w)"

section \<open>Values and predicates used in the statements\<close>





text \<open>The event that \<open>addCustomEvent\<close> pushes at the time \<open>t\<close>.\<close>

definition custom_event :: "string \<Rightarrow> jsval \<Rightarrow> int \<Rightarrow> jsval" where
  "custom_event tag payload t =
     JObj [(lit ''type'', JNum 5),
           (lit ''data'', JObj [(lit ''tag'', JStr (lit tag)), (lit ''payload'', payload)]),
           (lit ''timestamp'', JNum t)]"

text \<open>\<open>Object.keys(v)\<close> of a plain object.\<close>

definition object_keys :: "jsval \<Rightarrow> jsstring list" where
  "object_keys v = (case v of JObj fs \<Rightarrow> map fst fs | _ \<Rightarrow> [])"

text \<open>A page right after the recorder was installed: an empty buffer, a clock that
  advances by two milliseconds at every reading.\<close>

definition page0 :: world where
  "page0 = \<lparr>arrays = (\<lambda>r. []), fresh = 1, clock = (\<lambda>k. 1000 + 2 * int k), reads = 0,
            random_tokens = (\<lambda>k. lit ''k'' @ decimal_nat k), draws = 0, console_out = [],
            location_href = lit ''https://example.test/''\<rparr>"

text \<open>A native \<open>pushState\<close> that succeeds and moves the location to \<open>url\<close>.\<close>

definition native_pushState :: "jsstring \<Rightarrow> native_mutator" where
  "native_pushState url w = (Inr JUndefined, w\<lparr>location_href := url\<rparr>)"

text \<open>The \<open>phase\<close> and the \<open>id\<close> of the payload of an event.\<close>

definition payload_phase :: "jsval \<Rightarrow> jsval" where
  "payload_phase ev = js_prop ''phase'' (event_payload ev)"

definition payload_id :: "jsval \<Rightarrow> jsval" where
  "payload_id ev = js_prop ''id'' (event_payload ev)"

text \<open>A request answered \<open>304 Not Modified\<close>, as the native XHR object and as the native
  response of \<open>fetch\<close> show it.\<close>

definition xhr_native_304 :: xhr_native where
  "xhr_native_304 =
     \<lparr>xn_responseType = [], xn_contentType = JStr (lit ''text/plain''),
      xn_responseText = Inr (JStr []), xn_response = JStr [], xn_status = 304,
      xn_statusText = lit ''Not Modified'', xn_allResponseHeaders = JStr (lit ''content-type: text/plain'')\<rparr>"

definition response_304 :: response where
  "response_304 = \<lparr>res_status = 304, res_statusText = lit ''Not Modified'',
                    res_headers = [(lit ''content-type'', lit ''text/plain'')]\<rparr>"

text \<open>The variables of a \<open>fetch\<close> call and of an XHR instance sent once, both begun at
  the time \<open>1000\<close>.\<close>

definition pending_example :: pending_fetch where
  "pending_example = \<lparr>fetch_id = lit ''k0'', fetch_started = 1000\<rparr>"

definition closure_example :: xhr_closure where
  "closure_example =
     \<lparr>xhr_id = lit ''k0'', xhr_url = JStr (lit ''/api''), xhr_method = JStr (lit ''GET''),
      xhr_started = 1000, xhr_requestHeaders = [], xhr_requestBody = [], xhr_attached = 1\<rparr>"

text \<open>A terminal event of the request \<open>i\<close>: a network event with that id whose phase is
  \<open>end\<close> or \<open>error\<close>.\<close>

definition terminal_event :: "jsstring \<Rightarrow> jsval \<Rightarrow> bool" where
  "terminal_event i ev =
     (event_tag ev = JStr (lit ''network'') \<and> payload_id ev = JStr i \<and>
      (payload_phase ev = JStr (lit ''end'') \<or> payload_phase ev = JStr (lit ''error'')))"

text \<open>The phase of the event that the listener of a signal emits.\<close>

definition signal_phase :: "xhr_signal \<Rightarrow> jsstring" where
  "signal_phase sig = (case sig of SigLoad \<Rightarrow> lit ''end'' | SigLoadend \<Rightarrow> lit ''end'' | _ \<Rightarrow> lit ''error'')"

text \<open>What the native object shows after a network error: status \<open>0\<close>, no headers, an
  empty body.\<close>

definition xhr_native_failed :: xhr_native where
  "xhr_native_failed =
     \<lparr>xn_responseType = [], xn_contentType = JNull, xn_responseText = Inr (JStr []),
      xn_response = JStr [], xn_status = 0, xn_statusText = [], xn_allResponseHeaders = JStr []\<rparr>"

text \<open>\<open>x = new XMLHttpRequest(); x.open('GET', '/api'); x.send()\<close> on the page \<open>page0\<close>.\<close>

definition xhr_example :: "xhr_closure \<times> world" where
  "xhr_example =
     (let (c, w) = WrappedXHR page0;
          ((r, c'), w') = xhr_send JUndefined (xhr_open (JStr (lit ''GET'')) (JStr (lit ''/api'')) c) w
      in (c', w'))"

text \<open>The buffer after a computation that may throw.\<close>

definition session_of :: "world completion \<Rightarrow> jsval list" where
  "session_of r = (case r of Inl e \<Rightarrow> [] | Inr w \<Rightarrow> session w)"

text \<open>A value whose properties can be read: anything but \<open>undefined\<close> and \<open>null\<close>.\<close>

definition error_like :: "jsval \<Rightarrow> bool" where
  "error_like v = (v \<noteq> JUndefined \<and> v \<noteq> JNull)"

text \<open>
  A settlement on which the \<open>catch\<close> blocks of the fetch wrapper can read what they
  read: the reason of a rejection is not \<open>undefined\<close> or \<open>null\<close>, and the reason of a
  failed body read has a \<open>message\<close> that converts to a string.
\<close>

definition regular_settlement :: "settlement \<Rightarrow> bool" where
  "regular_settlement s =
     (case s of
        Rejected err \<Rightarrow> error_like err
      | Resolved res body \<Rightarrow>
          (case body of
             Inr t \<Rightarrow> True
           | Inl err \<Rightarrow> (case error_reading err of Inl e \<Rightarrow> False | Inr t \<Rightarrow> True)))"



definition init_example :: fetch_init where
  "init_example = \<lparr>init_body = JStr (lit ''{\"a\":1}''), init_method = JStr (lit ''POST''),
                    init_headers = JUndefined\<rparr>"

definition fetch_example :: "settlement \<Rightarrow> response completion \<times> world" where
  "fetch_example s =
     (case fetch_begin (JStr (lit ''/api'')) init_example page0 of
        (Inl e, w) \<Rightarrow> (Inl e, w)
      | (Inr p, w) \<Rightarrow> fetch_settle p s w)"





section \<open>Strings and events\<close>

lemma of_char_unat16: "unat (of_char c :: 16 word) = of_char c"
proof -
  have lt: "(of_char c :: nat) < 256"
    by (metis of_char_mod_256 mod_less_divisor zero_less_numeral)
  have "(of_char c :: 16 word) = of_nat (of_char c)"
    by (simp add: of_nat_of_char)
  then have "unat (of_char c :: 16 word) = unat (of_nat (of_char c :: nat) :: 16 word)"
    by simp
  also have "\<dots> = of_char c"
  proof -
    have "(of_char c :: nat) < 65536" using lt by linarith
    then show ?thesis by (simp add: unat_of_nat)
  qed
  finally show ?thesis .
qed

lemma of_char16_eq_iff: "(of_char c :: 16 word) = of_char d \<longleftrightarrow> c = d"
proof
  assume "(of_char c :: 16 word) = of_char d"
  then have "unat (of_char c :: 16 word) = unat (of_char d :: 16 word)" by simp
  then have "(of_char c :: nat) = of_char d" by (simp add: of_char_unat16)
  then show "c = d" by simp
qed simp

lemma lit_eq_iff [simp]: "lit a = lit b \<longleftrightarrow> a = b"
proof -
  have "inj (of_char :: char \<Rightarrow> 16 word)"
    by (rule injI) (simp add: of_char16_eq_iff)
  then show ?thesis
    unfolding lit_def by (simp add: inj_map_eq_map)
qed

lemma lit_Nil [simp]: "lit [] = []" "lit a = [] \<longleftrightarrow> a = []" "[] = lit a \<longleftrightarrow> a = []"
  by (auto simp: lit_def)

lemma lit_append: "lit (a @ b) = lit a @ lit b"
  by (simp add: lit_def)

lemma session_addCustomEvent:
  "session (addCustomEvent tag payload w) =
     session w @ [JObj [(lit ''type'', JNum 5),
                        (lit ''data'', JObj [(lit ''tag'', JStr (lit tag)), (lit ''payload'', payload)]),
                        (lit ''timestamp'', JNum (clock w (reads w)))]]"
  by (simp add: addCustomEvent_def Date_now_def session_push_def session_def)

lemma addCustomEvent_other [simp]:
  "console_out (addCustomEvent tag payload w) = console_out w"
  "location_href (addCustomEvent tag payload w) = location_href w"
  "clock (addCustomEvent tag payload w) = clock w"
  "reads (addCustomEvent tag payload w) = Suc (reads w)"
  "fresh (addCustomEvent tag payload w) = fresh w"
  by (simp_all add: addCustomEvent_def Date_now_def session_push_def)

lemma event_payload_custom [simp]:
  "event_payload (JObj [(lit ''type'', ty),
                        (lit ''data'', JObj [(lit ''tag'', tg), (lit ''payload'', payload)]),
                        (lit ''timestamp'', t)]) = payload"
  by (simp add: event_payload_def js_prop_def opt_prop_def)

lemma event_tag_custom [simp]:
  "event_tag (JObj [(lit ''type'', ty),
                    (lit ''data'', JObj [(lit ''tag'', tg), (lit ''payload'', payload)]),
                    (lit ''timestamp'', t)]) = tg"
  by (simp add: event_tag_def js_prop_def opt_prop_def)

section \<open>Properties of the bounded serializer\<close>

lemma slice0_nat: "slice0 s (int n) = take n s"
  by (simp add: slice0_def)

text \<open>
  C4. For every string \<open>s\<close> and every cap \<open>n\<close>, \<open>serializeData(s, n)\<close> returns a string
  of length \<open>min (length s) n\<close>, counted in UTF-16 code units, that is a prefix of \<open>s\<close>.
\<close>

theorem serializeData_string_prefix:
  "\<exists>r. serializeData (JStr s) (int n) = Inr r \<and> length r = min (length s) n \<and> prefix r s"
proof (cases "s = []")
  case True
  then show ?thesis by (simp add: serializeData_def)
next
  case False
  then have "serializeData (JStr s) (int n) = Inr (take n s)"
    by (simp add: serializeData_def slice0_nat)
  then show ?thesis by (simp add: take_is_prefix)
qed

theorem serializeData_string_prefix_witness:
  "\<exists>r. serializeData (JStr (lit ''hello'')) (int 3) = Inr r \<and> length r = min (length (lit ''hello'')) 3 \<and>
       prefix r (lit ''hello'')"
  using serializeData_string_prefix [of "lit ''hello''" 3] by simp






lemma session_update [simp]:
  "session (w\<lparr>reads := a\<rparr>) = session w"
  "session (w\<lparr>draws := b\<rparr>) = session w"
  "session (w\<lparr>console_out := c\<rparr>) = session w"
  "session (w\<lparr>location_href := d\<rparr>) = session w"
  by (simp_all add: session_def)

lemma page0_simps [simp]:
  "session page0 = []" "console_out page0 = []" "reads page0 = 0" "draws page0 = 0"
  "clock page0 k = 1000 + 2 * int k" "location_href page0 = lit ''https://example.test/''"
  "fresh page0 = 1"
  by (simp_all add: session_def page0_def)

section \<open>Properties of the console capture\<close>



lemma session_addCustomEvent':
  "session (addCustomEvent tag payload w) = session w @ [custom_event tag payload (clock w (reads w))]"
  by (simp add: session_addCustomEvent custom_event_def)



section \<open>Properties of the navigation capture\<close>

text \<open>
  C7, as stated, fails: the payload of the nav event has the keys \<open>href\<close> and \<open>t\<close>,
  not \<open>href\<close> and \<open>timestamp\<close>.
\<close>

theorem history_wrapper_payload_counterexample:
  "session (snd (history_wrapper (native_pushState (lit ''https://example.test/a'')) page0)) =
     [custom_event ''nav'' (JObj [(lit ''href'', JStr (lit ''https://example.test/a'')), (lit ''t'', JNum 1000)]) 1002] \<and>
   object_keys (JObj [(lit ''href'', JStr (lit ''https://example.test/a'')), (lit ''t'', JNum 1000)])
     \<noteq> [lit ''href'', lit ''timestamp'']"
  by (simp add: history_wrapper_def native_pushState_def emitNav_def Date_now_def
      session_addCustomEvent' object_keys_def)

text \<open>
  C7, amended. For every call of \<open>pushState\<close> or \<open>replaceState\<close> the wrapper first
  delegates to the original mutator. When that returns \<open>r\<close>, the wrapper returns \<open>r\<close>
  and records exactly one nav event, whose payload is \<open>{ href, t }\<close> with \<open>href\<close> the
  location after the mutation and \<open>t\<close> the reading of the clock; when the original
  throws, the exception reaches the caller and nothing is recorded.
\<close>

theorem history_wrapper_nav:
  "(case orig w of
      (Inr r, w1) \<Rightarrow>
        history_wrapper orig w = (Inr r, emitNav w1) \<and>
        session (emitNav w1) =
          session w1 @ [custom_event ''nav''
                          (JObj [(lit ''href'', JStr (location_href w1)), (lit ''t'', JNum (clock w1 (reads w1)))])
                          (clock w1 (Suc (reads w1)))]
    | (Inl e, w1) \<Rightarrow> history_wrapper orig w = (Inl e, w1))"
  by (auto simp: history_wrapper_def emitNav_def Date_now_def session_addCustomEvent'
      split: sum.splits prod.splits)

theorem history_wrapper_nav_witness:
  "history_wrapper (native_pushState (lit ''https://example.test/a'')) page0 =
     (Inr JUndefined, emitNav (page0\<lparr>location_href := lit ''https://example.test/a''\<rparr>)) \<and>
   session (emitNav (page0\<lparr>location_href := lit ''https://example.test/a''\<rparr>)) =
     [custom_event ''nav'' (JObj [(lit ''href'', JStr (lit ''https://example.test/a'')), (lit ''t'', JNum 1000)]) 1002]"
  using history_wrapper_nav [of "native_pushState (lit ''https://example.test/a'')" page0]
  by (simp add: native_pushState_def)

section \<open>Properties of the network capture\<close>

lemma prefix_lit [simp]: "prefix (lit a) (lit b) \<longleftrightarrow> prefix a b"
proof -
  have "inj (of_char :: char \<Rightarrow> 16 word)"
    by (rule injI) (simp add: of_char16_eq_iff)
  then show ?thesis
    unfolding lit_def by (simp add: inj_on_def prefix_def map_eq_append_conv)  
qed

lemma str_includes_lit [simp]:
  "str_includes (lit []) p \<longleftrightarrow> p = []"
  "str_includes (lit (c # cs)) p \<longleftrightarrow> prefix p (lit (c # cs)) \<or> str_includes (lit cs) p"
  by (simp_all add: lit_def)

lemma js_prop_JObj [simp]: "js_prop k (JObj fs) = lookup fs (lit k)"
  by (simp add: js_prop_def opt_prop_def)

lemma custom_event_simps [simp]:
  "event_payload (custom_event tag payload t) = payload"
  "event_tag (custom_event tag payload t) = JStr (lit tag)"
  by (simp_all add: custom_event_def)

lemma handleResponse_Inr:
  assumes "handleResponse c n w = Inr w'"
  obtains body rtype where
    "w' = addCustomEvent ''network''
            (JObj [(lit ''id'', JStr (xhr_id c)),
                   (lit ''phase'', JStr (lit ''end'')),
                   (lit ''status'', JNum (xn_status n)),
                   (lit ''statusText'', JStr (xn_statusText n)),
                   (lit ''ok'', JBool (xn_status n \<ge> 200 \<and> xn_status n < 400)),
                   (lit ''responseHeaders'', xn_allResponseHeaders n),
                   (lit ''responseBody'', JStr body),
                   (lit ''responseType'', JStr rtype),
                   (lit ''duration'', JNum (clock w (reads w) - xhr_started c)),
                   (lit ''timestamp'', JNum (clock w (Suc (reads w))))])
            (w\<lparr>reads := Suc (Suc (reads w))\<rparr>)"
  using assms
  by (auto simp: handleResponse_def Date_now_def split: sum.splits prod.splits)

lemma handleResponse_event:
  assumes "handleResponse c n w = Inr w'"
  shows "\<exists>ev. session w' = session w @ [ev] \<and>
              event_tag ev = JStr (lit ''network'') \<and>
              payload_id ev = JStr (xhr_id c) \<and>
              payload_phase ev = JStr (lit ''end'') \<and>
              js_prop ''ok'' (event_payload ev) = JBool (200 \<le> xn_status n \<and> xn_status n < 400)"
proof -
  from assms obtain body rtype where
    "w' = addCustomEvent ''network''
            (JObj [(lit ''id'', JStr (xhr_id c)),
                   (lit ''phase'', JStr (lit ''end'')),
                   (lit ''status'', JNum (xn_status n)),
                   (lit ''statusText'', JStr (xn_statusText n)),
                   (lit ''ok'', JBool (xn_status n \<ge> 200 \<and> xn_status n < 400)),
                   (lit ''responseHeaders'', xn_allResponseHeaders n),
                   (lit ''responseBody'', JStr body),
                   (lit ''responseType'', JStr rtype),
                   (lit ''duration'', JNum (clock w (reads w) - xhr_started c)),
                   (lit ''timestamp'', JNum (clock w (Suc (reads w))))])
            (w\<lparr>reads := Suc (Suc (reads w))\<rparr>)"
    by (rule handleResponse_Inr)
  then show ?thesis
    by (simp add: session_addCustomEvent' payload_id_def payload_phase_def)
qed

lemma handleError_event:
  "\<exists>ev. session (handleError c w) = session w @ [ev] \<and>
        event_tag ev = JStr (lit ''network'') \<and>
        payload_id ev = JStr (xhr_id c) \<and>
        payload_phase ev = JStr (lit ''error'')"
  by (simp add: handleError_def Date_now_def session_addCustomEvent' payload_id_def payload_phase_def)

lemma fetch_settle_resolved_Inr:
  assumes "fetch_settle p (Resolved res body) w = (Inr r, w')"
  obtains rbody rtype where
    "r = res"
    "w' = addCustomEvent ''network''
            (JObj [(lit ''id'', JStr (fetch_id p)),
                   (lit ''phase'', JStr (lit ''end'')),
                   (lit ''status'', JNum (res_status res)),
                   (lit ''statusText'', JStr (res_statusText res)),
                   (lit ''ok'', JBool (res_ok res)),
                   (lit ''headers'', JObj (map (\<lambda>(k, v). (k, JStr v)) (res_headers res))),
                   (lit ''responseBody'', JStr rbody),
                   (lit ''responseType'', JStr rtype),
                   (lit ''duration'', JNum (clock w (reads w) - fetch_started p)),
                   (lit ''timestamp'', JNum (clock w (Suc (reads w))))])
            (w\<lparr>reads := Suc (Suc (reads w))\<rparr>)"
  using assms
  by (auto simp: fetch_settle_def Date_now_def split: sum.splits prod.splits)

lemma fetch_end_event:
  assumes "fetch_settle p (Resolved res body) w = (Inr r, w')"
  shows "r = res \<and> (\<exists>ev. session w' = session w @ [ev] \<and>
              event_tag ev = JStr (lit ''network'') \<and>
              payload_id ev = JStr (fetch_id p) \<and>
              payload_phase ev = JStr (lit ''end'') \<and>
              js_prop ''ok'' (event_payload ev) = JBool (res_ok res))"
proof -
  from assms obtain rbody rtype where
    "r = res"
    "w' = addCustomEvent ''network''
            (JObj [(lit ''id'', JStr (fetch_id p)),
                   (lit ''phase'', JStr (lit ''end'')),
                   (lit ''status'', JNum (res_status res)),
                   (lit ''statusText'', JStr (res_statusText res)),
                   (lit ''ok'', JBool (res_ok res)),
                   (lit ''headers'', JObj (map (\<lambda>(k, v). (k, JStr v)) (res_headers res))),
                   (lit ''responseBody'', JStr rbody),
                   (lit ''responseType'', JStr rtype),
                   (lit ''duration'', JNum (clock w (reads w) - fetch_started p)),
                   (lit ''timestamp'', JNum (clock w (Suc (reads w))))])
            (w\<lparr>reads := Suc (Suc (reads w))\<rparr>)"
    by (rule fetch_settle_resolved_Inr)
  then show ?thesis
    by (simp add: session_addCustomEvent' payload_id_def payload_phase_def)
qed

text \<open>
  C10. Every end event of the XHR path carries \<open>ok = (200 \<le> status \<and> status < 400)\<close>,
  so a status in the range \<open>3xx\<close> is reported as ok; the end event of the fetch path
  carries the \<open>ok\<close> flag of the native response, which holds for the statuses
  \<open>200\<close> to \<open>299\<close> only.
\<close>

theorem ok_flag_xhr_and_fetch:
  "(handleResponse c n w = Inr w' \<longrightarrow>
      (\<exists>ev. session w' = session w @ [ev] \<and> payload_phase ev = JStr (lit ''end'') \<and>
            js_prop ''ok'' (event_payload ev) = JBool (200 \<le> xn_status n \<and> xn_status n < 400))) \<and>
   (fetch_settle p (Resolved res body) v = (Inr r, v') \<longrightarrow>
      (\<exists>ev. session v' = session v @ [ev] \<and> payload_phase ev = JStr (lit ''end'') \<and>
            js_prop ''ok'' (event_payload ev) = JBool (res_ok res) \<and>
            (res_ok res \<longleftrightarrow> 200 \<le> res_status res \<and> res_status res \<le> 299)))"
proof -
  have a: "handleResponse c n w = Inr w' \<longrightarrow>
      (\<exists>ev. session w' = session w @ [ev] \<and> payload_phase ev = JStr (lit ''end'') \<and>
            js_prop ''ok'' (event_payload ev) = JBool (200 \<le> xn_status n \<and> xn_status n < 400))"
    using handleResponse_event [of c n w w'] by blast
  have b: "fetch_settle p (Resolved res body) v = (Inr r, v') \<longrightarrow>
      (\<exists>ev. session v' = session v @ [ev] \<and> payload_phase ev = JStr (lit ''end'') \<and>
            js_prop ''ok'' (event_payload ev) = JBool (res_ok res) \<and>
            (res_ok res \<longleftrightarrow> 200 \<le> res_status res \<and> res_status res \<le> 299))"
    using fetch_end_event [of p res body v r v'] by (auto simp: res_ok_def)
  show ?thesis using a b by blast
qed

lemma handleResponse_304:
  "handleResponse c xhr_native_304 page0 =
     Inr (addCustomEvent ''network''
             (JObj [(lit ''id'', JStr (xhr_id c)),
                    (lit ''phase'', JStr (lit ''end'')),
                    (lit ''status'', JNum 304),
                    (lit ''statusText'', JStr (lit ''Not Modified'')),
                    (lit ''ok'', JBool True),
                    (lit ''responseHeaders'', JStr (lit ''content-type: text/plain'')),
                    (lit ''responseBody'', JStr []),
                    (lit ''responseType'', JStr (lit ''text'')),
                    (lit ''duration'', JNum (1000 - xhr_started c)),
                    (lit ''timestamp'', JNum 1002)]) (page0\<lparr>reads := 2\<rparr>))"
  by (simp add: handleResponse_def xhr_read_def xhr_native_304_def Date_now_def js_or_def
      serializeData_default_def serializeData_def numeral_2_eq_2)

lemma fetch_settle_304:
  "fetch_settle p (Resolved response_304 (Inr [])) page0 =
     (Inr response_304,
      addCustomEvent ''network''
        (JObj [(lit ''id'', JStr (fetch_id p)),
               (lit ''phase'', JStr (lit ''end'')),
               (lit ''status'', JNum 304),
               (lit ''statusText'', JStr (lit ''Not Modified'')),
               (lit ''ok'', JBool False),
               (lit ''headers'', JObj [(lit ''content-type'', JStr (lit ''text/plain''))]),
               (lit ''responseBody'', JStr []),
               (lit ''responseType'', JStr (lit ''text'')),
               (lit ''duration'', JNum (1000 - fetch_started p)),
               (lit ''timestamp'', JNum 1002)]) (page0\<lparr>reads := 2\<rparr>))"
  by (simp add: fetch_settle_def read_body_def response_304_def Date_now_def js_or_def string_or_def
      headers_get_def res_ok_def serializeData_default_def serializeData_def numeral_2_eq_2)

theorem ok_flag_xhr_and_fetch_witness:
  "(\<exists>w'. handleResponse closure_example xhr_native_304 page0 = Inr w' \<and>
         (\<exists>ev. session w' = [ev] \<and> js_prop ''ok'' (event_payload ev) = JBool True)) \<and>
   (\<exists>v'. fetch_settle pending_example (Resolved response_304 (Inr [])) page0 = (Inr response_304, v') \<and>
         (\<exists>ev. session v' = [ev] \<and> js_prop ''ok'' (event_payload ev) = JBool False))"
proof -
  obtain w' where h: "handleResponse closure_example xhr_native_304 page0 = Inr w'"
    by (simp add: handleResponse_304)
  obtain v' where f: "fetch_settle pending_example (Resolved response_304 (Inr [])) page0 = (Inr response_304, v')"
    by (simp add: fetch_settle_304)
  have s: "xn_status xhr_native_304 = 304" "res_status response_304 = 304"
    by (simp_all add: xhr_native_304_def response_304_def)
  show ?thesis
    using h f s
      ok_flag_xhr_and_fetch [of closure_example xhr_native_304 page0 w'
        pending_example response_304 "Inr []" page0 response_304 v']
    by auto
qed

lemma random_tokens_page0 [simp]: "random_tokens page0 0 = lit ''k0''"
  by (simp add: page0_def decimal_nat.simps [of 0] digit_unit_def lit_def)

lemma xhr_example_eq:
  "xhr_example =
     (\<lparr>xhr_id = lit ''k0'', xhr_url = JStr (lit ''/api''), xhr_method = JStr (lit ''GET''),
       xhr_started = 1000, xhr_requestHeaders = [], xhr_requestBody = [], xhr_attached = 1\<rparr>,
      addCustomEvent ''network''
        (JObj [(lit ''id'', JStr (lit ''k0'')),
               (lit ''phase'', JStr (lit ''start'')),
               (lit ''api'', JStr (lit ''xhr'')),
               (lit ''url'', JStr (lit ''/api'')),
               (lit ''method'', JStr (lit ''GET'')),
               (lit ''headers'', JObj []),
               (lit ''requestBody'', JStr []),
               (lit ''timestamp'', JNum 1000)]) (page0\<lparr>draws := 1, reads := 1\<rparr>))"
  by (simp add: xhr_example_def WrappedXHR_def random_id_def xhr_open_def xhr_send_def Date_now_def
      serializeData_default_def serializeData_def)

lemma xhr_listener_event:
  assumes "xhr_listener c sig n w = Inr w'"
  shows "\<exists>ev. session w' = session w @ [ev] \<and> terminal_event (xhr_id c) ev \<and>
              payload_phase ev = JStr (signal_phase sig)"
proof (cases "sig = SigLoad \<or> sig = SigLoadend")
  case True
  then have "handleResponse c n w = Inr w'"
    using assms by (auto simp: xhr_listener_def)
  from handleResponse_event [OF this] True show ?thesis
    by (auto simp: terminal_event_def signal_phase_def)
next
  case False
  then have "w' = handleError c w"
    using assms by (cases sig) (auto simp: xhr_listener_def)
  with handleError_event [of c w] False show ?thesis
    by (cases sig) (auto simp: terminal_event_def signal_phase_def)
qed

lemma run_listeners_events:
  assumes "run_listeners k (xhr_listener c sig n) w = Inr w'"
  shows "\<exists>evs. session w' = session w @ evs \<and> list_all (terminal_event (xhr_id c)) evs \<and>
               map payload_phase evs = replicate k (JStr (signal_phase sig))"
  using assms
proof (induction k arbitrary: w)
  case 0
  then show ?case by simp
next
  case (Suc k)
  then obtain w1 where
    h: "xhr_listener c sig n w = Inr w1" and r: "run_listeners k (xhr_listener c sig n) w1 = Inr w'"
    by (auto split: sum.splits)
  from xhr_listener_event [OF h] obtain ev where
    ev: "session w1 = session w @ [ev]" "terminal_event (xhr_id c) ev"
        "payload_phase ev = JStr (signal_phase sig)"
    by blast
  from Suc.IH [OF r] obtain evs where
    evs: "session w' = session w1 @ evs" "list_all (terminal_event (xhr_id c)) evs"
         "map payload_phase evs = replicate k (JStr (signal_phase sig))"
    by blast
  have "session w' = session w @ (ev # evs)"
    using ev(1) evs(1) by simp
  moreover have "list_all (terminal_event (xhr_id c)) (ev # evs)"
    using ev(2) evs(2) by simp
  moreover have "map payload_phase (ev # evs) = replicate (Suc k) (JStr (signal_phase sig))"
    using ev(3) evs(3) by simp
  ultimately show ?case by blast
qed

text \<open>
  C1, amended. Every completion signal delivered to an instrumented XHR makes each
  listener attached by a call of \<open>send\<close> emit one terminal event with the id of the
  instance, whenever the listeners return: an \<open>end\<close> event for \<open>load\<close> and for
  \<open>loadend\<close>, an \<open>error\<close> event for \<open>error\<close>, \<open>abort\<close> and \<open>timeout\<close>. So a
  request sent once that errors out (\<open>error\<close>, then \<open>loadend\<close>) produces exactly one
  \<open>error\<close> event, followed by one \<open>end\<close> event.
\<close>

theorem xhr_terminal_events:
  assumes "xhr_deliver c sns w = Inr w'"
  shows "\<exists>evs. session w' = session w @ evs \<and> list_all (terminal_event (xhr_id c)) evs \<and>
               map payload_phase evs =
                 concat (map (\<lambda>sn. replicate (xhr_attached c) (JStr (signal_phase (fst sn)))) sns)"
  using assms
proof (induction sns arbitrary: w)
  case Nil
  then show ?case by simp
next
  case (Cons sn sns)
  then obtain w1 where
    d: "xhr_dispatch c sn w = Inr w1" and r: "xhr_deliver c sns w1 = Inr w'"
    by (auto split: sum.splits)
  from d have "run_listeners (xhr_attached c) (xhr_listener c (fst sn) (snd sn)) w = Inr w1"
    by (simp add: xhr_dispatch_def)
  from run_listeners_events [OF this] obtain evs1 where
    e1: "session w1 = session w @ evs1" "list_all (terminal_event (xhr_id c)) evs1"
        "map payload_phase evs1 = replicate (xhr_attached c) (JStr (signal_phase (fst sn)))"
    by blast
  from Cons.IH [OF r] obtain evs2 where
    e2: "session w' = session w1 @ evs2" "list_all (terminal_event (xhr_id c)) evs2"
        "map payload_phase evs2 =
           concat (map (\<lambda>sn. replicate (xhr_attached c) (JStr (signal_phase (fst sn)))) sns)"
    by blast
  have "session w' = session w @ (evs1 @ evs2)"
    using e1(1) e2(1) by simp
  moreover have "list_all (terminal_event (xhr_id c)) (evs1 @ evs2)"
    using e1(2) e2(2) by simp
  moreover have "map payload_phase (evs1 @ evs2) =
      concat (map (\<lambda>sn. replicate (xhr_attached c) (JStr (signal_phase (fst sn)))) (sn # sns))"
    using e1(3) e2(3) by simp
  ultimately show ?case by blast
qed

lemma handleResponse_failed:
  "handleResponse c xhr_native_failed w =
     Inr (addCustomEvent ''network''
             (JObj [(lit ''id'', JStr (xhr_id c)),
                    (lit ''phase'', JStr (lit ''end'')),
                    (lit ''status'', JNum 0),
                    (lit ''statusText'', JStr []),
                    (lit ''ok'', JBool False),
                    (lit ''responseHeaders'', JStr []),
                    (lit ''responseBody'', JStr []),
                    (lit ''responseType'', JStr (lit ''text'')),
                    (lit ''duration'', JNum (clock w (reads w) - xhr_started c)),
                    (lit ''timestamp'', JNum (clock w (Suc (reads w))))]) (w\<lparr>reads := Suc (Suc (reads w))\<rparr>))"
  by (simp add: handleResponse_def xhr_read_def xhr_native_failed_def Date_now_def js_or_def
      serializeData_default_def serializeData_def)

lemma xhr_example_error_loadend:
  "xhr_deliver (fst xhr_example) [(SigError, xhr_native_failed), (SigLoadend, xhr_native_failed)] (snd xhr_example) =
     Inr (addCustomEvent ''network''
             (JObj [(lit ''id'', JStr (lit ''k0'')),
                    (lit ''phase'', JStr (lit ''end'')),
                    (lit ''status'', JNum 0),
                    (lit ''statusText'', JStr []),
                    (lit ''ok'', JBool False),
                    (lit ''responseHeaders'', JStr []),
                    (lit ''responseBody'', JStr []),
                    (lit ''responseType'', JStr (lit ''text'')),
                    (lit ''duration'', JNum 10),
                    (lit ''timestamp'', JNum 1012)])
          ((addCustomEvent ''network''
             (JObj [(lit ''id'', JStr (lit ''k0'')),
                    (lit ''phase'', JStr (lit ''error'')),
                    (lit ''error'', JStr (lit ''Network error'')),
                    (lit ''duration'', JNum 4),
                    (lit ''timestamp'', JNum 1006)])
             (snd xhr_example\<lparr>reads := 4\<rparr>))\<lparr>reads := 7\<rparr>))"
  by (simp add: xhr_example_eq xhr_dispatch_def xhr_listener_def handleResponse_failed handleError_def
      Date_now_def eval_nat_numeral)

text \<open>
  C1, as stated, fails. A request sent once fails with a network error: the browser
  fires \<open>error\<close> and then \<open>loadend\<close>. The start event was emitted, and two terminal
  events with the same id follow, an \<open>error\<close> event and an \<open>end\<close> event.
\<close>

theorem xhr_error_then_loadend_counterexample:
  "session (snd xhr_example) =
     [custom_event ''network''
        (JObj [(lit ''id'', JStr (lit ''k0'')),
               (lit ''phase'', JStr (lit ''start'')),
               (lit ''api'', JStr (lit ''xhr'')),
               (lit ''url'', JStr (lit ''/api'')),
               (lit ''method'', JStr (lit ''GET'')),
               (lit ''headers'', JObj []),
               (lit ''requestBody'', JStr []),
               (lit ''timestamp'', JNum 1000)]) 1002] \<and>
   filter (terminal_event (lit ''k0''))
     (session_of (xhr_deliver (fst xhr_example)
        [(SigError, xhr_native_failed), (SigLoadend, xhr_native_failed)] (snd xhr_example))) =
     [custom_event ''network''
        (JObj [(lit ''id'', JStr (lit ''k0'')),
               (lit ''phase'', JStr (lit ''error'')),
               (lit ''error'', JStr (lit ''Network error'')),
               (lit ''duration'', JNum 4),
               (lit ''timestamp'', JNum 1006)]) 1008,
      custom_event ''network''
        (JObj [(lit ''id'', JStr (lit ''k0'')),
               (lit ''phase'', JStr (lit ''end'')),
               (lit ''status'', JNum 0),
               (lit ''statusText'', JStr []),
               (lit ''ok'', JBool False),
               (lit ''responseHeaders'', JStr []),
               (lit ''responseBody'', JStr []),
               (lit ''responseType'', JStr (lit ''text'')),
               (lit ''duration'', JNum 10),
               (lit ''timestamp'', JNum 1012)]) 1014]"
  unfolding xhr_example_error_loadend session_of_def
  by (simp add: xhr_example_eq session_addCustomEvent' terminal_event_def payload_id_def payload_phase_def)

theorem xhr_terminal_events_witness:
  "\<exists>w'. xhr_deliver (fst xhr_example)
           [(SigError, xhr_native_failed), (SigLoadend, xhr_native_failed)] (snd xhr_example) = Inr w' \<and>
        (\<exists>evs. session w' = session (snd xhr_example) @ evs \<and>
               map payload_phase evs = [JStr (lit ''error''), JStr (lit ''end'')])"
proof -
  obtain w' where d: "xhr_deliver (fst xhr_example)
           [(SigError, xhr_native_failed), (SigLoadend, xhr_native_failed)] (snd xhr_example) = Inr w'"
    by (rule that, rule xhr_example_error_loadend)
  have a: "xhr_attached (fst xhr_example) = 1"
    by (simp add: xhr_example_eq)
  show ?thesis
    using d a xhr_terminal_events [OF d] by (auto simp: signal_phase_def)
qed


lemma get_prop_error_like:
  "error_like err \<Longrightarrow> get_prop err k = Inr (opt_prop err k)"
  by (cases err) (simp_all add: error_like_def opt_prop_def)

lemma fetch_catch_error_like:
  assumes "error_like err"
  shows "fetch_catch p err w =
     (err, addCustomEvent ''network''
             (JObj [(lit ''id'', JStr (fetch_id p)),
                    (lit ''phase'', JStr (lit ''error'')),
                    (lit ''error'', opt_prop err ''message''),
                    (lit ''stack'', opt_prop err ''stack''),
                    (lit ''duration'', JNum (clock w (reads w) - fetch_started p)),
                    (lit ''timestamp'', JNum (clock w (Suc (reads w))))])
             (w\<lparr>reads := Suc (Suc (reads w))\<rparr>))"
  by (simp add: fetch_catch_def get_prop_error_like [OF assms] Date_now_def)

lemma read_body_regular:
  assumes "regular_settlement (Resolved res body)"
  shows "\<exists>t rtype. read_body res body = Inr (t, rtype)"
  using assms
  by (auto simp: regular_settlement_def read_body_def Let_def split: sum.splits)

lemma serializeData_string: "\<exists>r. serializeData_default (JStr t) = Inr r"
  by (simp add: serializeData_default_def serializeData_def)

lemma fetch_settle_resolved_regular:
  assumes "regular_settlement (Resolved res body)"
  shows "\<exists>rbody rtype. fetch_settle p (Resolved res body) w =
     (Inr res,
      addCustomEvent ''network''
            (JObj [(lit ''id'', JStr (fetch_id p)),
                   (lit ''phase'', JStr (lit ''end'')),
                   (lit ''status'', JNum (res_status res)),
                   (lit ''statusText'', JStr (res_statusText res)),
                   (lit ''ok'', JBool (res_ok res)),
                   (lit ''headers'', JObj (map (\<lambda>(k, v). (k, JStr v)) (res_headers res))),
                   (lit ''responseBody'', JStr rbody),
                   (lit ''responseType'', JStr rtype),
                   (lit ''duration'', JNum (clock w (reads w) - fetch_started p)),
                   (lit ''timestamp'', JNum (clock w (Suc (reads w))))])
            (w\<lparr>reads := Suc (Suc (reads w))\<rparr>))"
proof -
  from read_body_regular [OF assms] obtain t rtype where rb: "read_body res body = Inr (t, rtype)"
    by blast
  obtain r where sd: "serializeData_default (JStr t) = Inr r"
    using serializeData_string by blast
  show ?thesis
    by (auto simp: fetch_settle_def rb sd Date_now_def)
qed

lemma fetch_settle_rejected_regular:
  assumes "error_like err"
  shows "fetch_settle p (Rejected err) w =
     (Inl err, addCustomEvent ''network''
             (JObj [(lit ''id'', JStr (fetch_id p)),
                    (lit ''phase'', JStr (lit ''error'')),
                    (lit ''error'', opt_prop err ''message''),
                    (lit ''stack'', opt_prop err ''stack''),
                    (lit ''duration'', JNum (clock w (reads w) - fetch_started p)),
                    (lit ''timestamp'', JNum (clock w (Suc (reads w))))])
             (w\<lparr>reads := Suc (Suc (reads w))\<rparr>))"
  by (simp add: fetch_settle_def fetch_catch_error_like [OF assms])



lemma slice0_short: "0 \<le> n \<Longrightarrow> length s \<le> nat n \<Longrightarrow> slice0 s n = s"
  by (simp add: slice0_def)

lemma length_lit [simp]: "length (lit s) = length s"
  by (simp add: lit_def)

lemma serializeData_default_short:
  "s \<noteq> [] \<Longrightarrow> length s \<le> 4096 \<Longrightarrow> serializeData_default (JStr s) = Inr s"
  by (simp add: serializeData_default_def serializeData_def slice0_short)

lemma fetch_begin_example:
  "fetch_begin (JStr (lit ''/api'')) init_example page0 =
     (Inr \<lparr>fetch_id = lit ''k0'', fetch_started = 1000\<rparr>,
      addCustomEvent ''network''
        (JObj [(lit ''id'', JStr (lit ''k0'')),
               (lit ''phase'', JStr (lit ''start'')),
               (lit ''api'', JStr (lit ''fetch'')),
               (lit ''url'', JStr (lit ''/api'')),
               (lit ''method'', JStr (lit ''POST'')),
               (lit ''headers'', JObj []),
               (lit ''requestBody'', JStr (lit ''{\"a\":1}'')),
               (lit ''timestamp'', JNum 1000)]) (page0\<lparr>reads := 1, draws := 1\<rparr>))"
  by (simp add: fetch_begin_def init_example_def Date_now_def random_id_def js_or_def
      serializeData_default_short)




text \<open>
  C6 at a failing input: the original fetch rejects with \<open>null\<close> (the reason given to
  \<open>AbortController.abort\<close>). The \<open>catch\<close> block reads \<open>err.message\<close>, which throws:
  the caller receives a \<open>TypeError\<close> instead of the original reason, and no error
  event is recorded, the buffer holds the start event only.
\<close>

theorem fetch_rejected_null:
  "fst (fetch_example (Rejected JNull)) =
     Inl (TypeError ''Cannot read properties of null (reading 'message')'') \<and>
   session (snd (fetch_example (Rejected JNull))) =
     [custom_event ''network''
        (JObj [(lit ''id'', JStr (lit ''k0'')),
               (lit ''phase'', JStr (lit ''start'')),
               (lit ''api'', JStr (lit ''fetch'')),
               (lit ''url'', JStr (lit ''/api'')),
               (lit ''method'', JStr (lit ''POST'')),
               (lit ''headers'', JObj []),
               (lit ''requestBody'', JStr (lit ''{\"a\":1}'')),
               (lit ''timestamp'', JNum 1000)]) 1002]"
  unfolding fetch_example_def fetch_begin_example
  by (simp add: fetch_settle_def fetch_catch_def session_addCustomEvent')

text \<open>On every other settlement the wrapper hands the caller what the original fetch
  settled to.\<close>

lemma fetch_settle_transparent:
  assumes "regular_settlement s"
  shows "fst (fetch_settle p s w) = (case s of Resolved res body \<Rightarrow> Inr res | Rejected err \<Rightarrow> Inl err)"
proof (cases s)
  case (Resolved res body)
  with assms fetch_settle_resolved_regular [of res body p w] show ?thesis
    by auto
next
  case (Rejected err)
  with assms have "error_like err" by (simp add: regular_settlement_def)
  from fetch_settle_rejected_regular [OF this, of p w] Rejected show ?thesis
    by simp
qed

section \<open>Properties of the control object\<close>













end
